theory Spec2Isabelle
  imports Main
begin

section \<open>JavaScript values used by the clients\<close>

text \<open>
  The browser clients receive JSON events over a WebSocket and write strings into DOM
  elements. The numbers of the protocol (scores, percentages, turn ordinals, points, ids)
  are taken as integers, of type \<^typ>\<open>int\<close>; a field that the code guards with \<open>||\<close>, \<open>?.\<close> or
  \<open>if (x)\<close> may be absent and is an \<^typ>\<open>'a option\<close> (\<open>None\<close> for \<open>undefined\<close>/\<open>null\<close>); a field
  that the code dereferences without a guard is present. Strings are byte strings in
  UTF-8; server
  strings are text (they carry no markup).
\<close>

subsection \<open>Number to string, and reading a rendered number back\<close>

definition digit_char :: "nat \<Rightarrow> char" where
  "digit_char d = ''0123456789'' ! d"

fun digits :: "nat \<Rightarrow> string" where
  "digits n = (if n < 10 then [digit_char n] else digits (n div 10) @ [digit_char (n mod 10)])"

declare digits.simps [simp del]

text \<open>\<open>String(i)\<close>, as a template literal \<open>`${i}`\<close> or an assignment to \<open>textContent\<close> applies it
  to an integer: decimal digits, with a leading minus sign for a negative number.\<close>

definition js_string :: "int \<Rightarrow> string" where
  "js_string i = (if i < 0 then CHR ''-'' # digits (nat (- i)) else digits (nat i))"

text \<open>How a reader of the page reads a displayed decimal: the inverse of \<^const>\<open>js_string\<close>.\<close>

definition digit_value :: "char \<Rightarrow> nat option" where
  "digit_value c = map_of (zip ''0123456789'' [0 ..< 10]) c"

fun read_digits :: "nat \<Rightarrow> string \<Rightarrow> nat option" where
  "read_digits acc [] = Some acc"
| "read_digits acc (c # cs) =
     (case digit_value c of None \<Rightarrow> None | Some d \<Rightarrow> read_digits (acc * 10 + d) cs)"

definition read_number :: "string \<Rightarrow> int option" where
  "read_number s =
     (case s of
        [] \<Rightarrow> None
      | c # cs \<Rightarrow>
          if c = CHR ''-''
          then (if cs = [] then None else map_option (\<lambda>n. - int n) (read_digits 0 cs))
          else map_option int (read_digits 0 s))"

definition strip_suffix :: "string \<Rightarrow> string \<Rightarrow> string option" where
  "strip_suffix suf s =
     (if length suf \<le> length s \<and> drop (length s - length suf) s = suf
      then Some (take (length s - length suf) s) else None)"

text \<open>A displayed quantity with its unit, such as \<open>50%\<close> or \<open>2/10\<close>.\<close>

definition read_quantity :: "string \<Rightarrow> string \<Rightarrow> int option" where
  "read_quantity unit s = (case strip_suffix unit s of None \<Rightarrow> None | Some t \<Rightarrow> read_number t)"

subsection \<open>Truthiness, case conversion, substrings\<close>

text \<open>\<open>x || d\<close> on a number that may be absent: \<open>undefined\<close>, \<open>null\<close> and \<open>0\<close> are falsy.\<close>

definition truthy_number :: "int option \<Rightarrow> bool" where
  "truthy_number x = (case x of None \<Rightarrow> False | Some n \<Rightarrow> n \<noteq> 0)"

definition or_number :: "int option \<Rightarrow> int \<Rightarrow> int" where
  "or_number x d = (case x of None \<Rightarrow> d | Some n \<Rightarrow> if n = 0 then d else n)"

text \<open>\<open>x || d\<close> on a string that may be absent: the empty string is falsy too.\<close>

definition truthy_string :: "string option \<Rightarrow> bool" where
  "truthy_string x = (case x of None \<Rightarrow> False | Some t \<Rightarrow> t \<noteq> [])"

definition or_string :: "string option \<Rightarrow> string \<Rightarrow> string" where
  "or_string x d = (case x of None \<Rightarrow> d | Some t \<Rightarrow> if t = [] then d else t)"

fun starts_with :: "string \<Rightarrow> string \<Rightarrow> bool" where
  "starts_with s [] = True"
| "starts_with [] (p # ps) = False"
| "starts_with (c # cs) (p # ps) = (c = p \<and> starts_with cs ps)"

text \<open>
  \<open>String.prototype.toLowerCase\<close>, on a string in UTF-8. An ASCII capital becomes its small
  letter; U+212A KELVIN SIGN becomes \<open>k\<close>, and U+0130 becomes \<open>i\<close> followed by U+0307. These
  are the only characters outside ASCII whose lower case has an ASCII letter; every other
  character outside ASCII lowers to characters outside ASCII and is kept here byte for
  byte, so that the result has the ASCII bytes of the engine's result, at the same places.
\<close>

definition capitals :: string where
  "capitals = ''ABCDEFGHIJKLMNOPQRSTUVWXYZ''"

definition small_letters :: string where
  "small_letters = ''abcdefghijklmnopqrstuvwxyz''"

definition toLowerCase_char :: "char \<Rightarrow> char" where
  "toLowerCase_char c =
     (case map_of (zip capitals small_letters) c of Some l \<Rightarrow> l | None \<Rightarrow> c)"

definition kelvin_sign :: string where
  "kelvin_sign = [CHR 0xE2, CHR 0x84, CHR 0xAA]"

definition capital_i_with_dot :: string where
  "capital_i_with_dot = [CHR 0xC4, CHR 0xB0]"

definition combining_dot_above :: string where
  "combining_dot_above = [CHR 0xCC, CHR 0x87]"

fun toLowerCase :: "string \<Rightarrow> string" where
  "toLowerCase [] = []"
| "toLowerCase (c # cs) =
     (if starts_with (c # cs) kelvin_sign then CHR ''k'' # toLowerCase (drop 2 cs)
      else if starts_with (c # cs) capital_i_with_dot
      then CHR ''i'' # combining_dot_above @ toLowerCase (drop 1 cs)
      else toLowerCase_char c # toLowerCase cs)"

text \<open>\<open>s.includes(p)\<close>: \<open>p\<close> occurs in \<open>s\<close> as a contiguous substring.\<close>

fun includes_str :: "string \<Rightarrow> string \<Rightarrow> bool" where
  "includes_str [] p = (p = [])"
| "includes_str (c # cs) p = (starts_with (c # cs) p \<or> includes_str cs p)"

subsection \<open>Property lookup in an object literal\<close>

text \<open>
  \<open>obj[key]\<close> on an object literal finds the literal's own properties and, for a key that
  names a member of \<open>Object.prototype\<close>, the inherited member (a function, or the prototype
  object for \<open>__proto__\<close>): a truthy value that is no string of the literal.
\<close>

datatype property = Own string | Inherited string | Undefined

definition Object_prototype :: "string list" where
  "Object_prototype =
     [''constructor'', ''hasOwnProperty'', ''isPrototypeOf'', ''propertyIsEnumerable'',
      ''toLocaleString'', ''toString'', ''valueOf'', ''__proto__'',
      ''__defineGetter__'', ''__defineSetter__'', ''__lookupGetter__'', ''__lookupSetter__'']"

definition lookup :: "(string \<times> string) list \<Rightarrow> string \<Rightarrow> property" where
  "lookup obj key =
     (case map_of obj key of
        Some v \<Rightarrow> Own v
      | None \<Rightarrow> if key \<in> set Object_prototype then Inherited key else Undefined)"

text \<open>\<open>p || d\<close> on a looked-up property.\<close>

definition or_property :: "property \<Rightarrow> string \<Rightarrow> property" where
  "or_property p d =
     (case p of Own v \<Rightarrow> if v = [] then Own d else Own v
      | Inherited k \<Rightarrow> Inherited k
      | Undefined \<Rightarrow> Own d)"

text \<open>\<open>`${p}`\<close>: the string itself; \<open>undefined\<close> prints as the word; an inherited member prints
  as the engine prints a built-in (\<open>function toString() { [native code] }\<close>, and
  \<open>[object Object]\<close> for the prototype object).\<close>

definition template :: "property \<Rightarrow> string" where
  "template p =
     (case p of Own v \<Rightarrow> v
      | Undefined \<Rightarrow> ''undefined''
      | Inherited k \<Rightarrow>
          if k = ''__proto__'' then ''[object Object]''
          else ''function '' @ (if k = ''constructor'' then ''Object'' else k) @ ''() { [native code] }'')"

text \<open>A block of statements, run in order on the state.\<close>

definition seq :: "('s \<Rightarrow> 's) list \<Rightarrow> 's \<Rightarrow> 's" where
  "seq fs s = fold (\<lambda>f. f) fs s"

section \<open>The call-centre client (static/script.js)\<close>

subsection \<open>Page state\<close>

text \<open>A DOM element, by the properties the script assigns.\<close>

record element =
  textContent :: string
  className :: string
  style_width :: string
  style_display :: string

definition set_text :: "string \<Rightarrow> element \<Rightarrow> element" where
  "set_text t e = e\<lparr>textContent := t\<rparr>"

definition set_class :: "string \<Rightarrow> element \<Rightarrow> element" where
  "set_class c e = e\<lparr>className := c\<rparr>"

text \<open>\<open>el.style.width = w\<close>, for the percentages that the script writes: the browser takes a
  percentage that is not negative and ignores a value that is no valid width, such as a
  negative percentage, so that the element keeps the width it had.\<close>

definition valid_width :: "string \<Rightarrow> bool" where
  "valid_width w = (case read_quantity ''%'' w of None \<Rightarrow> False | Some n \<Rightarrow> 0 \<le> n)"

definition set_width :: "string \<Rightarrow> element \<Rightarrow> element" where
  "set_width w e = e\<lparr>style_width := (if valid_width w then w else style_width e)\<rparr>"

definition set_display :: "string \<Rightarrow> element \<Rightarrow> element" where
  "set_display d e = e\<lparr>style_display := d\<rparr>"

datatype avatar = Avatar_img string | Avatar_text string

text \<open>An outcome card, by its class, its header (marker, title, points) and the action and
  turns of its details; the other details repeat fields of the event.\<close>

record outcome_card =
  card_className :: string
  outcome_emoji :: string
  outcome_title :: string
  points_className :: string
  points_text :: string
  action_text :: string
  turns_text :: string

text \<open>The children of \<open>#chat-messages\<close>. Only a typing indicator carries the id
  \<open>typing-indicator\<close>, only the welcome message the class \<open>welcome-message\<close>. A call divider
  holds the call id, the agent's style and display name and the warm-up tag; a chat message
  its class, avatar and text; a fraud alert the text that follows its icon.\<close>

datatype node =
    Welcome_message
  | Call_divider int string string bool
  | Chat_message string avatar string
  | System_message string
  | Fraud_alert string
  | Typing_indicator string avatar
  | Card outcome_card

datatype readyState = CONNECTING | OPEN | CLOSING | CLOSED

record page =
  ws :: "readyState option"
  sent :: "string list"
  currentFraudRisk :: int
  currentAgentStyle :: "string option"
  chatMessages :: "node list"
  startButton_disabled :: bool
  turnCount :: element
  agentIcon :: element
  agentName :: element
  agentStyle :: element
  fraudRiskBar :: element
  fraudRiskValue :: element
  headBar :: element
  headValue :: element
  heartBar :: element
  heartValue :: element
  handBar :: element
  handValue :: element
  dominant_items :: "string list"
  reasoningText :: element
  satisfactionBar :: element
  satisfactionValue :: element
  trustBar :: element
  trustValue :: element
  urgencyBar :: element
  urgencyValue :: element
  frustrationBar :: element
  frustrationValue :: element
  likelihoodBar :: element
  likelihoodValue :: element
  toneValue :: element
  frustrationWarning :: element

text \<open>\<open>sent\<close> lists the \<open>type\<close> of every command written to the socket;
  \<open>dominant_items\<close> lists the motivation items that carry the class \<open>dominant\<close>.\<close>

subsection \<open>Events\<close>

record motivation =
  head :: int
  heart :: int
  hand :: int

record confidence =
  fraud_likelihood :: "int option"
  motivation_guess :: "motivation option"
  reasoning :: "string option"

record sentiment =
  satisfaction :: int
  trust :: int
  urgency :: int
  frustration :: int
  likelihood_to_convert :: int
  emotional_tone :: "string option"

record dashboard_update =
  confidence :: confidence
  sentiment :: sentiment
  turn :: "int option"

record call_start =
  call_id :: int
  agent_style :: string
  agent_name :: string
  display_name :: string
  warmup_mode :: bool

record message =
  message_speaker :: string
  message_text :: string
  is_bounce :: bool
  is_end :: bool
  message_turn :: "int option"

record call_end =
  outcome :: string
  outcome_description :: string
  points :: int
  close_attempted :: bool
  flag_used :: bool
  customer_bounced :: bool
  turns_used :: int

datatype event =
    Call_start call_start
  | Typing string
  | Message message
  | Dashboard_update dashboard_update
  | Call_end call_end
  | Other_type string

subsection \<open>Dashboard\<close>

text \<open>The colour coding \<open>v >= 7 ? 'high' : v >= 4 ? 'medium' : 'low'\<close>.\<close>

definition level :: "int \<Rightarrow> string" where
  "level v = (if v \<ge> 7 then ''high'' else if v \<ge> 4 then ''medium'' else ''low'')"

text \<open>\<open>document.getElementById\<close> on the ids of the sentiment bars and values.\<close>

definition getElementById :: "string \<Rightarrow> ((element \<Rightarrow> element) \<Rightarrow> page \<Rightarrow> page) option" where
  "getElementById i =
     (if i = ''satisfaction-bar'' then Some satisfactionBar_update
      else if i = ''satisfaction-value'' then Some satisfactionValue_update
      else if i = ''trust-bar'' then Some trustBar_update
      else if i = ''trust-value'' then Some trustValue_update
      else if i = ''urgency-bar'' then Some urgencyBar_update
      else if i = ''urgency-value'' then Some urgencyValue_update
      else if i = ''frustration-bar'' then Some frustrationBar_update
      else if i = ''frustration-value'' then Some frustrationValue_update
      else if i = ''likelihood-bar'' then Some likelihoodBar_update
      else if i = ''likelihood-value'' then Some likelihoodValue_update
      else None)"

definition updateSentimentBar :: "string \<Rightarrow> int \<Rightarrow> page \<Rightarrow> page" where
  "updateSentimentBar metric v =
     (case (getElementById (metric @ ''-bar''), getElementById (metric @ ''-value'')) of
        (Some bar, Some valueEl) \<Rightarrow>
          seq
            [bar (set_width (js_string (v * 10) @ ''%'')),
             valueEl (set_text (js_string v)),
             (if metric = ''frustration''
              then bar (set_class (''sentiment-fill frustration-fill '' @ level v))
              else bar (set_class (''sentiment-fill '' @ metric @ ''-fill '' @ level v)))]
      | _ \<Rightarrow> id)"

definition getDominantMotivation :: "motivation \<Rightarrow> string" where
  "getDominantMotivation m =
     (if head m \<ge> heart m \<and> head m \<ge> hand m then ''head''
      else if heart m \<ge> head m \<and> heart m \<ge> hand m then ''heart''
      else ''hand'')"

definition positive :: "string list" where
  "positive = [''happy'', ''interested'', ''curious'', ''engaged'', ''warm'', ''friendly'']"

definition negative :: "string list" where
  "negative = [''frustrated'', ''annoyed'', ''skeptical'', ''impatient'', ''hostile'', ''angry'']"

text \<open>\<open>list.includes(tone?.toLowerCase())\<close>: an absent tone is in no list.\<close>

definition getToneClass :: "string option \<Rightarrow> string" where
  "getToneClass tone =
     (if (case tone of None \<Rightarrow> False | Some t \<Rightarrow> toLowerCase t \<in> set positive) then ''positive''
      else if (case tone of None \<Rightarrow> False | Some t \<Rightarrow> toLowerCase t \<in> set negative) then ''negative''
      else ''neutral'')"

definition updateDashboard :: "dashboard_update \<Rightarrow> page \<Rightarrow> page" where
  "updateDashboard data =
     (let fraudRisk = or_number (fraud_likelihood (confidence data)) 5;
          motivation =
            (case motivation_guess (confidence data) of
               Some m \<Rightarrow> m
             | None \<Rightarrow> \<lparr>head = 33, heart = 34, hand = 33\<rparr>);
          dominant = getDominantMotivation motivation;
          displayedFrustration = or_number (Some (frustration (sentiment data))) 0
      in seq
        [(if truthy_number (turn data)
          then turnCount_update (set_text (js_string (the (turn data)))) else id),
         currentFraudRisk_update (\<lambda>_. fraudRisk),
         fraudRiskBar_update (set_width (js_string (fraudRisk * 10) @ ''%'')),
         fraudRiskValue_update (set_text (js_string fraudRisk @ ''/10'')),
         fraudRiskBar_update (set_class (''metric-fill fraud-fill '' @ level fraudRisk)),
         headBar_update (set_width (js_string (head motivation) @ ''%'')),
         headValue_update (set_text (js_string (head motivation) @ ''%'')),
         heartBar_update (set_width (js_string (heart motivation) @ ''%'')),
         heartValue_update (set_text (js_string (heart motivation) @ ''%'')),
         handBar_update (set_width (js_string (hand motivation) @ ''%'')),
         handValue_update (set_text (js_string (hand motivation) @ ''%'')),
         dominant_items_update (\<lambda>_. []),
         dominant_items_update (\<lambda>items. items @ [dominant]),
         reasoningText_update (set_text (or_string (reasoning (confidence data)) ''Analyzing...'')),
         updateSentimentBar ''satisfaction'' (satisfaction (sentiment data)),
         updateSentimentBar ''trust'' (trust (sentiment data)),
         updateSentimentBar ''urgency'' (urgency (sentiment data)),
         updateSentimentBar ''frustration'' (frustration (sentiment data)),
         updateSentimentBar ''likelihood'' (likelihood_to_convert (sentiment data)),
         toneValue_update (set_text (or_string (emotional_tone (sentiment data)) ''neutral'')),
         toneValue_update
           (set_class (''tone-value '' @ getToneClass (emotional_tone (sentiment data)))),
         (if displayedFrustration \<ge> 6
          then seq
            [frustrationWarning_update (set_display ''flex''),
             frustrationWarning_update
               (set_class (''frustration-warning '' @
                  (if displayedFrustration \<ge> 8 then ''critical'' else ''warning'')))]
          else frustrationWarning_update (set_display ''none''))])"

definition resetDashboard :: "page \<Rightarrow> page" where
  "resetDashboard =
     seq
       [fraudRiskBar_update (set_width ''20%''),
        fraudRiskValue_update (set_text ''2/10''),
        fraudRiskBar_update (set_class ''metric-fill fraud-fill low''),
        headBar_update (set_width ''33%''),
        headValue_update (set_text ''33%''),
        heartBar_update (set_width ''33%''),
        heartValue_update (set_text ''33%''),
        handBar_update (set_width ''33%''),
        handValue_update (set_text ''33%''),
        dominant_items_update (\<lambda>_. []),
        reasoningText_update (set_text ''Waiting for conversation to begin...''),
        satisfactionBar_update (set_width ''50%''),
        satisfactionValue_update (set_text ''5''),
        trustBar_update (set_width ''50%''),
        trustValue_update (set_text ''5''),
        urgencyBar_update (set_width ''50%''),
        urgencyValue_update (set_text ''5''),
        frustrationBar_update (set_width ''20%''),
        frustrationValue_update (set_text ''2''),
        likelihoodBar_update (set_width ''50%''),
        likelihoodValue_update (set_text ''5''),
        toneValue_update (set_text ''neutral''),
        toneValue_update (set_class ''tone-value neutral''),
        frustrationWarning_update (set_display ''none'')]"

subsection \<open>Chat\<close>

fun is_typing_indicator :: "node \<Rightarrow> bool" where
  "is_typing_indicator (Typing_indicator c a) = True"
| "is_typing_indicator n = False"

text \<open>\<open>el.remove()\<close> on the first element that a selector or an id finds, if there is one.\<close>

fun remove_first :: "('a \<Rightarrow> bool) \<Rightarrow> 'a list \<Rightarrow> 'a list" where
  "remove_first P [] = []"
| "remove_first P (x # xs) = (if P x then xs else x # remove_first P xs)"

definition hideTypingIndicator :: "page \<Rightarrow> page" where
  "hideTypingIndicator = chatMessages_update (remove_first is_typing_indicator)"

text \<open>The avatar of a bubble: the agent's image once a style is known, a letter otherwise.\<close>

definition avatar_of :: "string \<Rightarrow> string option \<Rightarrow> avatar" where
  "avatar_of speaker agent =
     (if speaker = ''agent'' \<and> truthy_string agent
      then Avatar_img (''/avatars/'' @ the agent @ ''.png'')
      else Avatar_text (if speaker = ''agent'' then ''A'' else ''C''))"

definition showTypingIndicator :: "string \<Rightarrow> page \<Rightarrow> page" where
  "showTypingIndicator speaker s =
     seq
       [hideTypingIndicator,
        chatMessages_update
          (\<lambda>c. c @ [Typing_indicator (''typing-indicator '' @ speaker)
                      (avatar_of speaker (currentAgentStyle s))])] s"

definition addMessage :: "string \<Rightarrow> string \<Rightarrow> bool \<Rightarrow> bool \<Rightarrow> page \<Rightarrow> page" where
  "addMessage speaker txt isBounce isEnd s =
     (if speaker = ''system''
      then seq
        [chatMessages_update (\<lambda>c. c @ [System_message txt]),
         (if includes_str txt ''flagged for fraud'' \<and> currentFraudRisk s \<ge> 5
          then chatMessages_update
            (\<lambda>c. c @ [Fraud_alert
               ('' Agent detected fraud risk: '' @ js_string (currentFraudRisk s) @ ''/10'')])
          else id)] s
      else chatMessages_update
        (\<lambda>c. c @ [Chat_message (''message '' @ speaker @ (if isBounce then '' bounce'' else []))
                    (avatar_of speaker (currentAgentStyle s)) txt]) s)"

subsection \<open>Call start and call end\<close>

definition AGENT_ICONS :: "(string \<times> string) list" where
  "AGENT_ICONS =
     [(''closer'', ''C''), (''detective'', ''D''), (''empath'', ''E''), (''robot'', ''R''),
      (''gambler'', ''G'')]"

fun is_welcome :: "node \<Rightarrow> bool" where
  "is_welcome Welcome_message = True"
| "is_welcome n = False"

definition handleCallStart :: "call_start \<Rightarrow> page \<Rightarrow> page" where
  "handleCallStart data =
     seq
       [chatMessages_update (remove_first is_welcome),
        turnCount_update (set_text ''0''),
        currentAgentStyle_update (\<lambda>_. Some (agent_style data)),
        agentIcon_update
          (set_text (template (or_property (lookup AGENT_ICONS (agent_style data)) ''?''))),
        agentIcon_update (set_class (''agent-icon '' @ agent_style data)),
        agentName_update (set_text (agent_name data)),
        agentStyle_update (set_text (display_name data)),
        resetDashboard,
        chatMessages_update
          (\<lambda>c. c @ [Call_divider (call_id data) (agent_style data) (display_name data)
                      (warmup_mode data)])]"

definition outcomeEmoji :: "(string \<times> string) list" where
  "outcomeEmoji =
     [(''conversion'', ''+''), (''missed_opp'', ''-''), (''fraud_caught'', ''!''),
      (''fraud_missed'', ''X'')]"

definition outcome_marker :: "string \<Rightarrow> string" where
  "outcome_marker oc = template (or_property (lookup outcomeEmoji oc) ''?'')"

definition handleCallEnd :: "call_end \<Rightarrow> page \<Rightarrow> page" where
  "handleCallEnd data =
     (let card =
        \<lparr>card_className = ''outcome-card '' @ outcome data,
         outcome_emoji = outcome_marker (outcome data),
         outcome_title = outcome_description data,
         points_className = (if points data \<ge> 0 then ''positive'' else ''negative''),
         points_text =
           (if points data \<ge> 0 then ''+'' else []) @ js_string (points data) @ '' pts'',
         action_text =
           (if close_attempted data then ''Closed''
            else if flag_used data then ''Flagged''
            else if customer_bounced data then ''Customer Left''
            else ''Timed Out''),
         turns_text = js_string (turns_used data) @ ''/14''\<rparr>
      in seq
        [chatMessages_update (\<lambda>c. c @ [Card card]),
         startButton_disabled_update (\<lambda>_. False)])"

subsection \<open>Event dispatch, socket and start button\<close>

definition handleMessage :: "event \<Rightarrow> page \<Rightarrow> page" where
  "handleMessage data =
     (case data of
        Call_start d \<Rightarrow> handleCallStart d
      | Typing sp \<Rightarrow> showTypingIndicator sp
      | Message m \<Rightarrow>
          seq
            [hideTypingIndicator,
             addMessage (message_speaker m) (message_text m) (is_bounce m) (is_end m),
             (if truthy_number (message_turn m)
              then turnCount_update (set_text (js_string (the (message_turn m)))) else id)]
      | Dashboard_update d \<Rightarrow> updateDashboard d
      | Call_end d \<Rightarrow> handleCallEnd d
      | Other_type t \<Rightarrow> id)"

definition startNewCall :: "page \<Rightarrow> page" where
  "startNewCall s =
     (if ws s = Some OPEN
      then seq
        [startButton_disabled_update (\<lambda>_. True),
         sent_update (\<lambda>out. out @ [''new_call''])] s
      else s)"

definition connect :: "page \<Rightarrow> page" where
  "connect = ws_update (\<lambda>_. Some CONNECTING)"

definition onopen :: "page \<Rightarrow> page" where
  "onopen = seq [ws_update (\<lambda>_. Some OPEN), startButton_disabled_update (\<lambda>_. False)]"

definition onclose :: "page \<Rightarrow> page" where
  "onclose = seq [ws_update (\<lambda>_. Some CLOSED), startButton_disabled_update (\<lambda>_. True)]"

text \<open>
  What the browser delivers to the script: a click on the start button (a disabled button
  dispatches no click event), the socket opening or closing, the reconnect timer firing
  \<open>connect\<close>, and a message on the socket. The leaderboard and warm-up requests only write
  the score elements and the warm-up button, which are not part of \<^typ>\<open>page\<close>.
\<close>

datatype input = Click | Ws_open | Ws_close | Timer_connect | Ws_message event

definition step :: "input \<Rightarrow> page \<Rightarrow> page" where
  "step i s =
     (case i of
        Click \<Rightarrow> if startButton_disabled s then s else startNewCall s
      | Ws_open \<Rightarrow> onopen s
      | Ws_close \<Rightarrow> onclose s
      | Timer_connect \<Rightarrow> connect s
      | Ws_message e \<Rightarrow> handleMessage e s)"

definition run :: "input list \<Rightarrow> page \<Rightarrow> page" where
  "run ins s = fold step ins s"

text \<open>The script's variables as it initialises them, on a page whose elements are still
  blank and whose chat holds the welcome message.\<close>

definition blank :: element where
  "blank = \<lparr>textContent = [], className = [], style_width = [], style_display = []\<rparr>"

definition initial_page :: page where
  "initial_page =
     \<lparr>ws = None, sent = [], currentFraudRisk = 2, currentAgentStyle = None,
      chatMessages = [Welcome_message], startButton_disabled = True,
      turnCount = blank, agentIcon = blank, agentName = blank, agentStyle = blank,
      fraudRiskBar = blank, fraudRiskValue = blank, headBar = blank, headValue = blank,
      heartBar = blank, heartValue = blank, handBar = blank, handValue = blank,
      dominant_items = [], reasoningText = blank,
      satisfactionBar = blank, satisfactionValue = blank, trustBar = blank, trustValue = blank,
      urgencyBar = blank, urgencyValue = blank, frustrationBar = blank, frustrationValue = blank,
      likelihoodBar = blank, likelihoodValue = blank, toneValue = blank,
      frustrationWarning = blank\<rparr>"

section \<open>The conversion-chat client, in its two variants\<close>

text \<open>
  The first variant (203 lines) and the second (336 lines) stream a session of an Android
  advocate and an iPhone user; the second adds a modal that queries insights. Each variant
  is translated from its own file: the definitions of the first end in \<open>0\<close>, those of the
  second in \<open>1\<close>.
\<close>

subsection \<open>Events and page state\<close>

record stats =
  converted :: int
  stayed :: int
  maybe :: int

record session_start =
  session_id :: int
  start_stats :: "stats option"

record profile =
  primary_loyalty :: string
  openness_to_switch :: string
  disclosure_style :: string

record session_end =
  end_stats :: "stats option"
  end_outcome :: string
  actual_profile :: profile
  prediction_correct :: bool
  advocate_prediction :: "string option"

datatype session_event =
    Session_start session_start
  | Session_typing string
  | Session_message string string
  | Session_end session_end
  | Session_other string

record session_card =
  session_card_className :: string
  heading :: string
  loyalty_line :: string
  openness_line :: string
  disclosure_line :: string
  prediction_line :: string
  badge_className :: string
  badge_text :: string

datatype session_node =
    Session_welcome
  | Session_divider string
  | Session_bubble string string string
  | Session_indicator string string
  | Session_card session_card

record session_page =
  socket :: "readyState option"
  commands :: "string list"
  sessionCount :: int
  sessionCountEl :: element
  convertedCountEl :: element
  stayedCountEl :: element
  maybeCountEl :: element
  chat :: "session_node list"
  start_disabled :: bool

text \<open>The page of the second variant has the insights modal as well.\<close>

record insights_page = session_page +
  insightsModal_active :: bool
  insightsContent :: string

fun is_session_welcome :: "session_node \<Rightarrow> bool" where
  "is_session_welcome Session_welcome = True"
| "is_session_welcome n = False"

fun is_session_indicator :: "session_node \<Rightarrow> bool" where
  "is_session_indicator (Session_indicator c a) = True"
| "is_session_indicator n = False"

text \<open>The pictographs of the source, as their UTF-8 bytes: U+1F916, U+1F4F1, U+2705 and
  U+1F914.\<close>

definition robot_face :: string where
  "robot_face = [CHR 0xF0, CHR 0x9F, CHR 0xA4, CHR 0x96]"

definition mobile_phone :: string where
  "mobile_phone = [CHR 0xF0, CHR 0x9F, CHR 0x93, CHR 0xB1]"

definition check_mark :: string where
  "check_mark = [CHR 0xE2, CHR 0x9C, CHR 0x85]"

definition thinking_face :: string where
  "thinking_face = [CHR 0xF0, CHR 0x9F, CHR 0xA4, CHR 0x94]"

subsection \<open>First variant\<close>

definition outcomeText0 :: "(string \<times> string) list" where
  "outcomeText0 =
     [(''converted'', check_mark @ '' Converted to Android!''),
      (''stayed'', mobile_phone @ '' Staying with iPhone''),
      (''maybe'', thinking_face @ '' Maybe Later'')]"

definition updateStats0 :: "stats \<Rightarrow> session_page \<Rightarrow> session_page" where
  "updateStats0 st =
     seq
       [convertedCountEl_update (set_text (js_string (converted st))),
        stayedCountEl_update (set_text (js_string (stayed st))),
        maybeCountEl_update (set_text (js_string (maybe st)))]"

definition handleSessionStart0 :: "session_start \<Rightarrow> session_page \<Rightarrow> session_page" where
  "handleSessionStart0 data =
     seq
       [sessionCount_update (\<lambda>_. session_id data),
        sessionCountEl_update (set_text (js_string (session_id data))),
        (case start_stats data of Some st \<Rightarrow> updateStats0 st | None \<Rightarrow> id),
        chat_update (remove_first is_session_welcome),
        chat_update (\<lambda>c. c @ [Session_divider (''Session '' @ js_string (session_id data))])]"

definition addMessage0 :: "string \<Rightarrow> string \<Rightarrow> session_page \<Rightarrow> session_page" where
  "addMessage0 speaker txt =
     chat_update
       (\<lambda>c. c @ [Session_bubble (''message '' @ speaker)
                   (if speaker = ''android'' then robot_face else mobile_phone) txt])"

definition hideTypingIndicator0 :: "session_page \<Rightarrow> session_page" where
  "hideTypingIndicator0 = chat_update (remove_first is_session_indicator)"

definition showTypingIndicator0 :: "string \<Rightarrow> session_page \<Rightarrow> session_page" where
  "showTypingIndicator0 speaker =
     seq
       [hideTypingIndicator0,
        chat_update
          (\<lambda>c. c @ [Session_indicator (''typing-indicator '' @ speaker)
                      (if speaker = ''android'' then robot_face else mobile_phone)])]"

definition handleSessionEnd0 :: "session_end \<Rightarrow> session_page \<Rightarrow> session_page" where
  "handleSessionEnd0 data =
     (let card =
        \<lparr>session_card_className = ''outcome-card '' @ end_outcome data,
         heading = template (lookup outcomeText0 (end_outcome data)),
         loyalty_line = primary_loyalty (actual_profile data),
         openness_line = openness_to_switch (actual_profile data),
         disclosure_line = disclosure_style (actual_profile data),
         prediction_line = or_string (advocate_prediction data) ''N/A'',
         badge_className = (if prediction_correct data then ''correct'' else ''incorrect''),
         badge_text = (if prediction_correct data then ''Correct!'' else ''Wrong'')\<rparr>
      in seq
        [(case end_stats data of Some st \<Rightarrow> updateStats0 st | None \<Rightarrow> id),
         chat_update (\<lambda>c. c @ [Session_card card]),
         start_disabled_update (\<lambda>_. False)])"

definition handleMessage0 :: "session_event \<Rightarrow> session_page \<Rightarrow> session_page" where
  "handleMessage0 data =
     (case data of
        Session_start d \<Rightarrow> handleSessionStart0 d
      | Session_typing sp \<Rightarrow> showTypingIndicator0 sp
      | Session_message sp txt \<Rightarrow> seq [hideTypingIndicator0, addMessage0 sp txt]
      | Session_end d \<Rightarrow> handleSessionEnd0 d
      | Session_other t \<Rightarrow> id)"

definition startNewSession0 :: "session_page \<Rightarrow> session_page" where
  "startNewSession0 s =
     (if socket s = Some OPEN
      then seq
        [start_disabled_update (\<lambda>_. True),
         commands_update (\<lambda>out. out @ [''new_session''])] s
      else s)"

subsection \<open>Second variant\<close>

definition outcomeText1 :: "(string \<times> string) list" where
  "outcomeText1 =
     [(''converted'', check_mark @ '' Converted to Android!''),
      (''stayed'', mobile_phone @ '' Staying with iPhone''),
      (''maybe'', thinking_face @ '' Maybe Later'')]"

definition updateStats1 :: "stats \<Rightarrow> insights_page \<Rightarrow> insights_page" where
  "updateStats1 st =
     seq
       [convertedCountEl_update (set_text (js_string (converted st))),
        stayedCountEl_update (set_text (js_string (stayed st))),
        maybeCountEl_update (set_text (js_string (maybe st)))]"

definition handleSessionStart1 :: "session_start \<Rightarrow> insights_page \<Rightarrow> insights_page" where
  "handleSessionStart1 data =
     seq
       [sessionCount_update (\<lambda>_. session_id data),
        sessionCountEl_update (set_text (js_string (session_id data))),
        (case start_stats data of Some st \<Rightarrow> updateStats1 st | None \<Rightarrow> id),
        chat_update (remove_first is_session_welcome),
        chat_update (\<lambda>c. c @ [Session_divider (''Session '' @ js_string (session_id data))])]"

definition addMessage1 :: "string \<Rightarrow> string \<Rightarrow> insights_page \<Rightarrow> insights_page" where
  "addMessage1 speaker txt =
     chat_update
       (\<lambda>c. c @ [Session_bubble (''message '' @ speaker)
                   (if speaker = ''android'' then robot_face else mobile_phone) txt])"

definition hideTypingIndicator1 :: "insights_page \<Rightarrow> insights_page" where
  "hideTypingIndicator1 = chat_update (remove_first is_session_indicator)"

definition showTypingIndicator1 :: "string \<Rightarrow> insights_page \<Rightarrow> insights_page" where
  "showTypingIndicator1 speaker =
     seq
       [hideTypingIndicator1,
        chat_update
          (\<lambda>c. c @ [Session_indicator (''typing-indicator '' @ speaker)
                      (if speaker = ''android'' then robot_face else mobile_phone)])]"

definition handleSessionEnd1 :: "session_end \<Rightarrow> insights_page \<Rightarrow> insights_page" where
  "handleSessionEnd1 data =
     (let card =
        \<lparr>session_card_className = ''outcome-card '' @ end_outcome data,
         heading = template (lookup outcomeText1 (end_outcome data)),
         loyalty_line = primary_loyalty (actual_profile data),
         openness_line = openness_to_switch (actual_profile data),
         disclosure_line = disclosure_style (actual_profile data),
         prediction_line = or_string (advocate_prediction data) ''N/A'',
         badge_className = (if prediction_correct data then ''correct'' else ''incorrect''),
         badge_text = (if prediction_correct data then ''Correct!'' else ''Wrong'')\<rparr>
      in seq
        [(case end_stats data of Some st \<Rightarrow> updateStats1 st | None \<Rightarrow> id),
         chat_update (\<lambda>c. c @ [Session_card card]),
         start_disabled_update (\<lambda>_. False)])"

definition handleMessage1 :: "session_event \<Rightarrow> insights_page \<Rightarrow> insights_page" where
  "handleMessage1 data =
     (case data of
        Session_start d \<Rightarrow> handleSessionStart1 d
      | Session_typing sp \<Rightarrow> showTypingIndicator1 sp
      | Session_message sp txt \<Rightarrow> seq [hideTypingIndicator1, addMessage1 sp txt]
      | Session_end d \<Rightarrow> handleSessionEnd1 d
      | Session_other t \<Rightarrow> id)"

definition startNewSession1 :: "insights_page \<Rightarrow> insights_page" where
  "startNewSession1 s =
     (if socket s = Some OPEN
      then seq
        [start_disabled_update (\<lambda>_. True),
         commands_update (\<lambda>out. out @ [''new_session''])] s
      else s)"

text \<open>The insights modal: opening it shows a placeholder until the reply is rendered;
  closing it hides it.\<close>

definition showInsights1 :: "insights_page \<Rightarrow> insights_page" where
  "showInsights1 =
     seq [insightsModal_active_update (\<lambda>_. True), insightsContent_update (\<lambda>_. ''Loading...'')]"

definition hideInsights1 :: "insights_page \<Rightarrow> insights_page" where
  "hideInsights1 = insightsModal_active_update (\<lambda>_. False)"

section \<open>Reading the display, and example inputs\<close>

text \<open>What the dashboard shows, read back as numbers: a percentage, the motivation total,
  the fraud risk and its bar, and the sentiment values and bars in the order satisfaction,
  trust, urgency, frustration, likelihood.\<close>

definition shown_percent :: "element \<Rightarrow> int option" where
  "shown_percent e = read_quantity ''%'' (textContent e)"

definition motivation_total :: "page \<Rightarrow> int option" where
  "motivation_total s =
     (case (shown_percent (headValue s), shown_percent (heartValue s),
            shown_percent (handValue s)) of
        (Some a, Some b, Some c) \<Rightarrow> Some (a + b + c)
      | _ \<Rightarrow> None)"

definition shown_fraud :: "page \<Rightarrow> int option" where
  "shown_fraud s = read_quantity ''/10'' (textContent (fraudRiskValue s))"






text \<open>
  Following the claim's words: a string is a keyword case-insensitively when it has, letter
  by letter, the keyword's small letter or its capital. The Kelvin sign is a capital of
  \<open>k\<close>.
\<close>

definition capital_of :: "char \<Rightarrow> char" where
  "capital_of c =
     (case map_of (zip small_letters capitals) c of Some u \<Rightarrow> u | None \<Rightarrow> c)"

fun same_word :: "string \<Rightarrow> string \<Rightarrow> bool" where
  "same_word t [] = (t = [])"
| "same_word [] (k # ks) = False"
| "same_word (c # cs) (k # ks) =
     (if c = k \<or> c = capital_of k then same_word cs ks
      else k = CHR ''k'' \<and> starts_with (c # cs) kelvin_sign \<and> same_word (drop 2 cs) ks)"

definition kelvin_skeptical :: string where
  "kelvin_skeptical = ''s'' @ kelvin_sign @ ''eptical''"



text \<open>The inputs that enable the start button again.\<close>

fun reenables :: "input \<Rightarrow> bool" where
  "reenables Ws_open = True"
| "reenables (Ws_message (Call_end d)) = True"
| "reenables i = False"

fun is_call_end :: "input \<Rightarrow> bool" where
  "is_call_end (Ws_message (Call_end d)) = True"
| "is_call_end i = False"

text \<open>Example events and pages.\<close>

definition calm :: sentiment where
  "calm =
     \<lparr>satisfaction = 5, trust = 5, urgency = 5, frustration = 2, likelihood_to_convert = 5,
      emotional_tone = None\<rparr>"

definition silent_update :: dashboard_update where
  "silent_update =
     \<lparr>confidence = \<lparr>fraud_likelihood = None, motivation_guess = None, reasoning = None\<rparr>,
      sentiment = calm, turn = None\<rparr>"

definition guess_update :: dashboard_update where
  "guess_update =
     \<lparr>confidence =
        \<lparr>fraud_likelihood = Some 3,
         motivation_guess = Some \<lparr>head = 60, heart = 30, hand = 10\<rparr>,
         reasoning = Some ''Asks about specs''\<rparr>,
      sentiment = calm\<lparr>emotional_tone := Some ''Curious''\<rparr>, turn = Some 2\<rparr>"


definition alarming_update :: dashboard_update where
  "alarming_update =
     \<lparr>confidence = \<lparr>fraud_likelihood = Some 8, motivation_guess = None, reasoning = None\<rparr>,
      sentiment = calm, turn = Some 4\<rparr>"

definition second_call :: call_start where
  "second_call =
     \<lparr>call_id = 2, agent_style = ''detective'', agent_name = ''Dana'',
      display_name = ''The Detective'', warmup_mode = False\<rparr>"

definition flag_notice :: message where
  "flag_notice =
     \<lparr>message_speaker = ''system'', message_text = ''Agent flagged for fraud'',
      is_bounce = False, is_end = True, message_turn = None\<rparr>"

definition agent_line :: message where
  "agent_line =
     \<lparr>message_speaker = ''agent'', message_text = ''Hello'', is_bounce = False,
      is_end = False, message_turn = Some 1\<rparr>"

definition ready_page :: page where
  "ready_page = run [Timer_connect, Ws_open] initial_page"

definition initial_session_page :: session_page where
  "initial_session_page =
     \<lparr>socket = None, commands = [], sessionCount = 0, sessionCountEl = blank,
      convertedCountEl = blank, stayedCountEl = blank, maybeCountEl = blank,
      chat = [Session_welcome], start_disabled = True\<rparr>"

definition initial_insights_page :: insights_page where
  "initial_insights_page =
     session_page.extend initial_session_page
       (insights_page.fields False [])"

definition undecided_end :: session_end where
  "undecided_end =
     \<lparr>end_stats = None, end_outcome = ''undecided'',
      actual_profile =
        \<lparr>primary_loyalty = ''heart'', openness_to_switch = ''low'', disclosure_style = ''guarded''\<rparr>,
      prediction_correct = False, advocate_prediction = None\<rparr>"

section \<open>Properties\<close>

subsection \<open>Rendering a number and reading it back\<close>


lemma digit_value_digit_char: "d < 10 \<Longrightarrow> digit_value (digit_char d) = Some d"
proof -
  assume "d < 10"
  then have "d \<in> {0, 1, 2, 3, 4, 5, 6, 7, 8, 9}" by auto
  then show ?thesis
    by (auto simp: digit_value_def digit_char_def upt_conv_Cons)
qed

lemma read_digits_snoc:
  "read_digits acc (cs @ [c]) =
     (case read_digits acc cs of None \<Rightarrow> None
      | Some a \<Rightarrow> (case digit_value c of None \<Rightarrow> None | Some d \<Rightarrow> Some (a * 10 + d)))"
  by (induction cs arbitrary: acc) (auto split: option.splits)

lemma read_digits_digits: "read_digits 0 (digits n) = Some n"
proof (induction n rule: digits.induct)
  case (1 n)
  show ?case
  proof (cases "n < 10")
    case True
    then show ?thesis by (simp add: digits.simps [of n] digit_value_digit_char)
  next
    case False
    with 1 show ?thesis
      by (simp add: digits.simps [of n] read_digits_snoc digit_value_digit_char)
  qed
qed

lemma digits_not_Nil: "digits n \<noteq> []"
  by (subst digits.simps) simp

lemma digit_char_not_minus: "d < 10 \<Longrightarrow> digit_char d \<noteq> CHR ''-''"
proof -
  assume "d < 10"
  then have "d \<in> {0, 1, 2, 3, 4, 5, 6, 7, 8, 9}" by auto
  then show ?thesis by (auto simp: digit_char_def)
qed

lemma hd_digits: "hd (digits n) \<noteq> CHR ''-''"
proof (induction n rule: digits.induct)
  case (1 n)
  show ?case
  proof (cases "n < 10")
    case True
    then show ?thesis by (simp add: digits.simps [of n] digit_char_not_minus)
  next
    case False
    with 1 show ?thesis
      by (simp add: digits.simps [of n] digits_not_Nil)
  qed
qed

lemma read_number_js_string: "read_number (js_string i) = Some i"
proof (cases "i < 0")
  case True
  then show ?thesis
    by (simp add: read_number_def js_string_def digits_not_Nil read_digits_digits)
next
  case False
  obtain c cs where d: "digits (nat i) = c # cs"
    using digits_not_Nil [of "nat i"] by (cases "digits (nat i)") auto
  with hd_digits [of "nat i"] have "c \<noteq> CHR ''-''" by simp
  with False d read_digits_digits [of "nat i"] show ?thesis
    by (simp add: read_number_def js_string_def)
qed

lemma read_quantity_js_string: "read_quantity u (js_string i @ u) = Some i"
  by (simp add: read_quantity_def strip_suffix_def read_number_js_string)

lemmas reading =
  read_quantity_def strip_suffix_def read_number_def digit_value_def upt_conv_Cons

lemma valid_width_js_string: "valid_width (js_string n @ ''%'') = (0 \<le> n)"
  by (simp add: valid_width_def read_quantity_js_string)

lemma valid_width_literals: "valid_width ''20%''" "valid_width ''33%''" "valid_width ''50%''"
  by (simp_all add: valid_width_def reading)

lemmas setters =
  set_text_def set_class_def set_width_def set_display_def valid_width_js_string
  valid_width_literals

lemma js_string_5: "js_string 5 = ''5''" "js_string 50 = ''50''"
  by (simp_all add: js_string_def digits.simps digit_char_def)

lemma level_5: "level 5 = ''medium''"
  by (simp add: level_def)

lemma read_33: "read_quantity ''%'' ''33%'' = Some 33"
  by (simp add: read_quantity_def strip_suffix_def read_number_def digit_value_def upt_conv_Cons)

lemmas dash = updateDashboard_def Let_def seq_def updateSentimentBar_def getElementById_def setters

subsection \<open>Fraud risk without an estimate\<close>

text \<open>
  C1, as amended. For every dashboard update whose confidence carries no fraud likelihood,
  the client shows the fixed fallback 5: the value reads \<open>5/10\<close>, the bar is 50% wide and
  coloured medium, and the tracked fraud risk is 5, whatever the page showed before. The
  fallback is not the value 2/10 that a reset shows.
\<close>

theorem fraud_fallback_is_five:
  "fraud_likelihood (confidence d) = None \<Longrightarrow>
     textContent (fraudRiskValue (updateDashboard d s)) = ''5/10'' \<and>
     style_width (fraudRiskBar (updateDashboard d s)) = ''50%'' \<and>
     className (fraudRiskBar (updateDashboard d s)) = ''metric-fill fraud-fill medium'' \<and>
     currentFraudRisk (updateDashboard d s) = 5"
  by (simp add: dash or_number_def js_string_5 level_5)

theorem fraud_fallback_is_five_witness:
  "fraud_likelihood (confidence silent_update) = None \<and>
   textContent (fraudRiskValue (updateDashboard silent_update initial_page)) = ''5/10'' \<and>
   currentFraudRisk (updateDashboard silent_update initial_page) = 5"
  using fraud_fallback_is_five [of silent_update initial_page]
  by (simp add: silent_update_def)

text \<open>C1 as stated fails: after a reset the page shows 2/10, and an update without a fraud
  likelihood then shows 5/10.\<close>

theorem fraud_fallback_differs_from_reset:
  "fraud_likelihood (confidence silent_update) = None \<and>
   textContent (fraudRiskValue (updateDashboard silent_update (resetDashboard initial_page))) =
     ''5/10'' \<and>
   textContent (fraudRiskValue (resetDashboard initial_page)) = ''2/10''"
  by (simp add: dash or_number_def js_string_5 silent_update_def resetDashboard_def)

subsection \<open>Motivation percentages\<close>

text \<open>
  C2, as amended. An update without a motivation guess shows head 33, heart 34, hand 33,
  which total 100; an update with a guess shows the three percentages it carries, so they
  total what the carried ones total; a reset shows 33, 33, 33, which total 99.
\<close>

theorem motivation_rendering:
  "(motivation_guess (confidence d) = None \<longrightarrow>
      map shown_percent [headValue (updateDashboard d s), heartValue (updateDashboard d s),
        handValue (updateDashboard d s)] = [Some 33, Some 34, Some 33] \<and>
      motivation_total (updateDashboard d s) = Some 100) \<and>
   (motivation_guess (confidence d) = Some m \<longrightarrow>
      map shown_percent [headValue (updateDashboard d s), heartValue (updateDashboard d s),
        handValue (updateDashboard d s)] = [Some (head m), Some (heart m), Some (hand m)] \<and>
      motivation_total (updateDashboard d s) = Some (head m + heart m + hand m)) \<and>
   map shown_percent [headValue (resetDashboard s), heartValue (resetDashboard s),
        handValue (resetDashboard s)] = [Some 33, Some 33, Some 33] \<and>
   motivation_total (resetDashboard s) = Some 99"
  by (simp add: dash motivation_total_def shown_percent_def read_quantity_js_string
      resetDashboard_def read_33)

theorem motivation_rendering_witness:
  "motivation_guess (confidence silent_update) = None \<and>
   motivation_total (updateDashboard silent_update initial_page) = Some 100 \<and>
   motivation_guess (confidence guess_update) = Some \<lparr>head = 60, heart = 30, hand = 10\<rparr> \<and>
   motivation_total (updateDashboard guess_update initial_page) = Some 100 \<and>
   motivation_total (resetDashboard initial_page) = Some 99"
  using motivation_rendering [of silent_update initial_page "\<lparr>head = 0, heart = 0, hand = 0\<rparr>"]
    motivation_rendering [of guess_update initial_page "\<lparr>head = 60, heart = 30, hand = 10\<rparr>"]
  by (simp add: silent_update_def guess_update_def)

text \<open>C2 as stated fails: the state produced by a dashboard reset shows percentages that
  total 99.\<close>

theorem reset_motivation_total:
  "motivation_total (resetDashboard initial_page) = Some 99 \<and>
   motivation_total (resetDashboard initial_page) \<noteq> Some 100"
  by (simp add: motivation_total_def shown_percent_def resetDashboard_def seq_def setters read_33)

subsection \<open>Dominant motivation\<close>

text \<open>
  C9. The dominant motivation of a triple is head when head is at least heart and at least
  hand, otherwise heart when heart is at least hand, otherwise hand: ties go to head, then
  heart, then hand.
\<close>

theorem getDominantMotivation_order:
  "getDominantMotivation m =
     (if head m \<ge> heart m \<and> head m \<ge> hand m then ''head''
      else if heart m \<ge> hand m then ''heart'' else ''hand'')"
  by (auto simp: getDominantMotivation_def)

subsection \<open>Scalar bars\<close>



lemma shown_fraud_update:
  "shown_fraud (updateDashboard d s) = Some (or_number (fraud_likelihood (confidence d)) 5)"
  by (simp add: dash shown_fraud_def read_quantity_js_string)



text \<open>A fraud likelihood of 0 counts as absent.\<close>

lemma zero_fraud_likelihood:
  "fraud_likelihood (confidence d) = Some 0 \<Longrightarrow> shown_fraud (updateDashboard d s) = Some 5"
  by (simp add: shown_fraud_update or_number_def)

text \<open>A negative score is no valid width: the bar keeps the width it had, while the value
  shows the score.\<close>

lemma negative_score_keeps_bar:
  "satisfaction (sentiment d) < 0 \<Longrightarrow>
     style_width (satisfactionBar (updateDashboard d s)) = style_width (satisfactionBar s) \<and>
     textContent (satisfactionValue (updateDashboard d s)) = js_string (satisfaction (sentiment d))"
  by (simp add: dash)





subsection \<open>Tone classes\<close>

lemma letters:
  "distinct capitals" "distinct small_letters" "length capitals = length small_letters"
  "set capitals \<inter> set small_letters = {}"
  by (simp_all add: capitals_def small_letters_def)

lemma special_bytes:
  "CHR 0xE2 \<notin> set capitals \<union> set small_letters"
  "CHR 0xC4 \<notin> set capitals \<union> set small_letters"
  "CHR 0xCC \<notin> set capitals \<union> set small_letters"
  by (simp_all add: capitals_def small_letters_def)

lemma keywords_small:
  "\<forall>k\<in>set (positive @ negative). set k \<subseteq> set small_letters"
  by (simp add: positive_def negative_def small_letters_def)

lemma map_of_zip_swap:
  assumes "distinct xs" "distinct ys" "length xs = length ys"
  shows "(map_of (zip xs ys) x = Some y) = (map_of (zip ys xs) y = Some x)"
proof -
  have "(map_of (zip xs ys) x = Some y) = ((x, y) \<in> set (zip xs ys))"
    using assms by (simp add: map_of_eq_Some_iff)
  also have "\<dots> = ((y, x) \<in> set (zip ys xs))"
    by (auto simp: in_set_zip)
  also have "\<dots> = (map_of (zip ys xs) y = Some x)"
    using assms by (simp add: map_of_eq_Some_iff)
  finally show ?thesis .
qed

lemma capital_of_small:
  assumes "k \<in> set small_letters"
  shows "capital_of k \<in> set capitals"
    and "map_of (zip capitals small_letters) (capital_of k) = Some k"
proof -
  from assms letters obtain u where u: "map_of (zip small_letters capitals) k = Some u"
    by (metis map_of_zip_is_Some)
  then have c: "capital_of k = u" by (simp add: capital_of_def)
  from u have "map_of (zip capitals small_letters) u = Some k"
    using map_of_zip_swap [of capitals small_letters u k] letters by simp
  with c show "map_of (zip capitals small_letters) (capital_of k) = Some k" by simp
  from u have "(k, u) \<in> set (zip small_letters capitals)" by (rule map_of_SomeD)
  then have "u \<in> set capitals" by (rule set_zip_rightD)
  with c show "capital_of k \<in> set capitals" by simp
qed

lemma toLowerCase_char_small:
  assumes "k \<in> set small_letters"
  shows "(toLowerCase_char c = k) = (c = k \<or> c = capital_of k)"
proof
  assume l: "toLowerCase_char c = k"
  show "c = k \<or> c = capital_of k"
  proof (cases "map_of (zip capitals small_letters) c")
    case None
    with l show ?thesis by (simp add: toLowerCase_char_def)
  next
    case (Some l')
    with l have "map_of (zip capitals small_letters) c = Some k"
      by (simp add: toLowerCase_char_def)
    then have "map_of (zip small_letters capitals) k = Some c"
      using map_of_zip_swap [of capitals small_letters c k] letters by simp
    then show ?thesis by (simp add: capital_of_def)
  qed
next
  assume "c = k \<or> c = capital_of k"
  then show "toLowerCase_char c = k"
  proof
    assume "c = k"
    with assms letters have "c \<notin> set capitals" by auto
    then have "map_of (zip capitals small_letters) c = None"
      using letters by (simp add: map_of_zip_is_None)
    with \<open>c = k\<close> show ?thesis by (simp add: toLowerCase_char_def)
  next
    assume "c = capital_of k"
    with capital_of_small(2) [OF assms] show ?thesis by (simp add: toLowerCase_char_def)
  qed
qed

lemma small_not_special:
  assumes "k \<in> set small_letters"
  shows "k \<noteq> CHR 0xE2 \<and> capital_of k \<noteq> CHR 0xE2 \<and> k \<noteq> CHR 0xC4 \<and> capital_of k \<noteq> CHR 0xC4 \<and>
     k \<noteq> CHR 0xCC"
  using assms capital_of_small(1) [OF assms] special_bytes by auto


lemma toLowerCase_same_word:
  "set k \<subseteq> set small_letters \<Longrightarrow> (toLowerCase t = k) = same_word t k"
proof (induction t arbitrary: k rule: toLowerCase.induct)
  case 1
  show ?case by (cases k) simp_all
next
  case (2 c cs)
  show ?case
  proof (cases k)
    case Nil
    then show ?thesis by simp
  next
    case (Cons k0 ks)
    with "2.prems" have k0: "k0 \<in> set small_letters" and ks: "set ks \<subseteq> set small_letters"
      by simp_all
    note ns = small_not_special [OF k0]
    consider (kelvin) "starts_with (c # cs) kelvin_sign"
      | (idot) "\<not> starts_with (c # cs) kelvin_sign" "starts_with (c # cs) capital_i_with_dot"
      | (plain) "\<not> starts_with (c # cs) kelvin_sign" "\<not> starts_with (c # cs) capital_i_with_dot"
      by blast
    then show ?thesis
    proof cases
      case kelvin
      then have c: "c = CHR 0xE2" by (simp add: kelvin_sign_def)
      have "(toLowerCase (drop 2 cs) = ks) = same_word (drop 2 cs) ks"
        using "2.IH"(1) [OF kelvin ks] .
      with kelvin c ns Cons show ?thesis
        by auto
    next
      case idot
      then have c: "c = CHR 0xC4" by (simp add: capital_i_with_dot_def)
      have "CHR 0xCC \<notin> set ks"
        using ks special_bytes(3) by auto
      then have "ks \<noteq> CHR 0xCC # xs" for xs by auto
      with idot c ns Cons show ?thesis
        by (auto simp: combining_dot_above_def kelvin_sign_def)
    next
      case plain
      have "(toLowerCase cs = ks) = same_word cs ks"
        using "2.IH"(3) [OF plain ks] .
      with plain toLowerCase_char_small [OF k0, of c] Cons show ?thesis
        by auto
    qed
  qed
qed

lemma in_keywords:
  "(toLowerCase t \<in> set positive) = (\<exists>k\<in>set positive. same_word t k)"
  "(toLowerCase t \<in> set negative) = (\<exists>k\<in>set negative. same_word t k)"
proof -
  have "(toLowerCase t = k) = same_word t k" if "k \<in> set positive \<union> set negative" for k
    using that keywords_small by (intro toLowerCase_same_word) simp
  then show "(toLowerCase t \<in> set positive) = (\<exists>k\<in>set positive. same_word t k)"
    "(toLowerCase t \<in> set negative) = (\<exists>k\<in>set negative. same_word t k)"
    by blast+
qed


lemmas lowering =
  toLowerCase_char_def capitals_def small_letters_def kelvin_sign_def capital_i_with_dot_def

text \<open>
  C5. An absent tone is neutral. A tone string is positive if it is a positive keyword
  case-insensitively, otherwise negative if it is a negative keyword case-insensitively,
  otherwise neutral, and the dashboard gives the tone element that class. So \<open>HAPPY\<close> is
  positive, \<open>Skeptical\<close> negative (also when its k is the Kelvin sign), and \<open>calm\<close> and the
  empty string neutral.
\<close>

theorem getToneClass_buckets:
  "getToneClass None = ''neutral'' \<and>
   getToneClass (Some t) =
     (if \<exists>k\<in>set positive. same_word t k then ''positive''
      else if \<exists>k\<in>set negative. same_word t k then ''negative''
      else ''neutral'') \<and>
   className (toneValue (updateDashboard d s)) =
     ''tone-value '' @ getToneClass (emotional_tone (sentiment d)) \<and>
   getToneClass (Some ''HAPPY'') = ''positive'' \<and>
   getToneClass (Some ''Skeptical'') = ''negative'' \<and>
   getToneClass (Some kelvin_skeptical) = ''negative'' \<and>
   getToneClass (Some ''calm'') = ''neutral'' \<and>
   getToneClass (Some []) = ''neutral''"
proof -
  have "getToneClass (Some ''HAPPY'') = ''positive''"
    "getToneClass (Some ''Skeptical'') = ''negative''"
    "getToneClass (Some kelvin_skeptical) = ''negative''"
    "getToneClass (Some ''calm'') = ''neutral''"
    "getToneClass (Some []) = ''neutral''"
    by (simp_all add: getToneClass_def positive_def negative_def kelvin_skeptical_def lowering)
  moreover have "getToneClass None = ''neutral''"
    by (simp add: getToneClass_def)
  moreover have "getToneClass (Some t) =
     (if \<exists>k\<in>set positive. same_word t k then ''positive''
      else if \<exists>k\<in>set negative. same_word t k then ''negative''
      else ''neutral'')"
    by (simp add: in_keywords getToneClass_def)
  moreover have "className (toneValue (updateDashboard d s)) =
     ''tone-value '' @ getToneClass (emotional_tone (sentiment d))"
    by (simp add: dash)
  ultimately show ?thesis by blast
qed

theorem getToneClass_buckets_witness:
  "same_word ''Happy'' ''happy'' \<and> getToneClass (Some ''Happy'') = ''positive'' \<and>
   same_word ''ANGRY'' ''angry'' \<and> getToneClass (Some ''ANGRY'') = ''negative'' \<and>
   getToneClass (Some ''bored'') = ''neutral''"
  using getToneClass_buckets [of "''Happy''"] getToneClass_buckets [of "''ANGRY''"]
    getToneClass_buckets [of "''bored''"]
  by (simp add: positive_def negative_def capital_of_def capitals_def small_letters_def
      kelvin_sign_def)

subsection \<open>Call start\<close>

lemmas handlers =
  handleMessage_def handleCallStart_def handleCallEnd_def showTypingIndicator_def
  hideTypingIndicator_def addMessage_def resetDashboard_def

lemmas handlers0 =
  handleMessage0_def handleSessionStart0_def handleSessionEnd0_def showTypingIndicator0_def
  hideTypingIndicator0_def addMessage0_def updateStats0_def startNewSession0_def

lemmas handlers1 =
  handleMessage1_def handleSessionStart1_def handleSessionEnd1_def showTypingIndicator1_def
  hideTypingIndicator1_def addMessage1_def updateStats1_def startNewSession1_def

lemma handleCallStart_display:
  "map (\<lambda>e. textContent (e (handleCallStart d s)))
     [turnCount, fraudRiskValue, headValue, heartValue, handValue, satisfactionValue, trustValue,
      urgencyValue, frustrationValue, likelihoodValue, toneValue] =
     [''0'', ''2/10'', ''33%'', ''33%'', ''33%'', ''5'', ''5'', ''5'', ''2'', ''5'', ''neutral'']"
  by (simp add: handlers seq_def setters)

lemma handleCallStart_keeps: "currentFraudRisk (handleCallStart d s) = currentFraudRisk s"
  by (simp add: handlers seq_def setters)

lemma resetDashboard_idempotent: "resetDashboard (resetDashboard s) = resetDashboard s"
  by (simp add: resetDashboard_def seq_def setters)

text \<open>
  C4 fails on the tracked fraud risk. After an update with fraud likelihood 8, a call start
  resets the displayed fraud risk to 2/10 but leaves \<open>currentFraudRisk\<close> at 8 (it is 2
  initially), and a system notice of the new call that reports a fraud flag then shows the
  alert \<open>Agent detected fraud risk: 8/10\<close>.
\<close>

theorem call_start_keeps_tracked_fraud_risk:
  "textContent (fraudRiskValue
     (run [Ws_message (Dashboard_update alarming_update), Ws_message (Call_start second_call)]
        initial_page)) = ''2/10'' \<and>
   currentFraudRisk
     (run [Ws_message (Dashboard_update alarming_update), Ws_message (Call_start second_call)]
        initial_page) = 8 \<and>
   currentFraudRisk initial_page = 2 \<and>
   chatMessages
     (run [Ws_message (Dashboard_update alarming_update), Ws_message (Call_start second_call),
           Ws_message (Message flag_notice)] initial_page) =
     [Call_divider 2 ''detective'' ''The Detective'' False,
      System_message ''Agent flagged for fraud'',
      Fraud_alert '' Agent detected fraud risk: 8/10'']"
  by (simp add: run_def step_def handlers dash alarming_update_def second_call_def
      flag_notice_def initial_page_def calm_def or_number_def truthy_number_def
      js_string_def digits.simps digit_char_def)

subsection \<open>Start button\<close>

lemma handleMessage_sent: "sent (handleMessage e s) = sent s"
  by (cases e) (simp_all add: handlers dash)

lemma handleMessage_ws: "ws (handleMessage e s) = ws s"
  by (cases e) (simp_all add: handlers dash)

lemma handleMessage_disabled:
  "startButton_disabled (handleMessage e s) =
     (if reenables (Ws_message e) then False else startButton_disabled s)"
  by (cases e) (simp_all add: handlers dash)

lemma step_sent:
  "sent (step i s) =
     (if i = Click \<and> ws s = Some OPEN \<and> \<not> startButton_disabled s then sent s @ [''new_call'']
      else sent s)"
  by (cases i)
    (simp_all add: step_def startNewCall_def onopen_def onclose_def connect_def seq_def
      handleMessage_sent)

lemma step_disabled:
  "startButton_disabled (step i s) =
     (if reenables i then False
      else if i = Ws_close \<or> (i = Click \<and> ws s = Some OPEN) then True
      else startButton_disabled s)"
  by (cases i)
    (auto simp: step_def startNewCall_def onopen_def onclose_def connect_def seq_def
      handleMessage_disabled)

lemma run_quiet:
  "startButton_disabled s \<Longrightarrow> \<forall>i\<in>set ins. \<not> reenables i \<Longrightarrow>
     sent (run ins s) = sent s \<and> startButton_disabled (run ins s)"
proof (induction ins arbitrary: s)
  case Nil
  then show ?case by (simp add: run_def)
next
  case (Cons i ins)
  from Cons.prems have "startButton_disabled (step i s)" "sent (step i s) = sent s"
    by (simp_all add: step_disabled step_sent)
  with Cons.IH [of "step i s"] Cons.prems show ?case
    by (simp add: run_def)
qed

text \<open>The guard against a second command is the disabled button, which dispatches no click;
  \<open>startNewCall\<close> itself tests the socket only.\<close>

lemma startNewCall_unguarded:
  "ws s = Some OPEN \<Longrightarrow> sent (startNewCall (startNewCall s)) = sent s @ [''new_call'', ''new_call'']"
  by (simp add: startNewCall_def seq_def)

text \<open>
  C6, as amended. An input changes the list of sent commands only if it is a click while
  the socket is open and the start button enabled; it then appends one \<open>new_call\<close> and
  disables the button. A disabled button becomes enabled only by a call end or by the
  socket opening. Hence after a click that sent \<open>new_call\<close>, no sequence of inputs without
  a call end and without a socket opening sends anything further.
\<close>

theorem new_call_not_reissued:
  "(sent (step i s) \<noteq> sent s \<longrightarrow>
      i = Click \<and> ws s = Some OPEN \<and> \<not> startButton_disabled s \<and>
      sent (step i s) = sent s @ [''new_call''] \<and> startButton_disabled (step i s)) \<and>
   (startButton_disabled s \<and> \<not> startButton_disabled (step i s) \<longrightarrow> reenables i) \<and>
   (sent (step Click s) \<noteq> sent s \<and> (\<forall>j\<in>set js. \<not> reenables j) \<longrightarrow>
      sent (run js (step Click s)) = sent (step Click s))"
proof -
  have a: "sent (step i s) \<noteq> sent s \<longrightarrow>
      i = Click \<and> ws s = Some OPEN \<and> \<not> startButton_disabled s \<and>
      sent (step i s) = sent s @ [''new_call''] \<and> startButton_disabled (step i s)"
    by (auto simp: step_sent step_disabled split: if_splits)
  have b: "startButton_disabled s \<and> \<not> startButton_disabled (step i s) \<longrightarrow> reenables i"
    by (auto simp: step_disabled split: if_splits)
  have c: "sent (run js (step Click s)) = sent (step Click s)"
    if h: "sent (step Click s) \<noteq> sent s \<and> (\<forall>j\<in>set js. \<not> reenables j)"
  proof -
    from h have "startButton_disabled (step Click s)"
      by (auto simp: step_sent step_disabled split: if_splits)
    with h show ?thesis
      using run_quiet [of "step Click s" js] by simp
  qed
  from a b c show ?thesis by blast
qed

lemma ready: "ws ready_page = Some OPEN" "\<not> startButton_disabled ready_page" "sent ready_page = []"
  by (simp_all add: ready_page_def run_def step_def onopen_def connect_def seq_def initial_page_def)

theorem new_call_not_reissued_witness:
  "sent (step Click ready_page) = [''new_call''] \<and>
   sent (step Click ready_page) \<noteq> sent ready_page \<and>
   \<not> startButton_disabled ready_page \<and> startButton_disabled (step Click ready_page) \<and>
   sent (run [Click, Ws_message (Typing ''agent''), Click, Ws_message (Message agent_line), Click]
           (step Click ready_page)) = [''new_call'']"
  using new_call_not_reissued [of Click ready_page
      "[Click, Ws_message (Typing ''agent''), Click, Ws_message (Message agent_line), Click]"]
  by (simp add: ready step_sent)

text \<open>C6 as stated fails: after a sent \<open>new_call\<close> the socket closes and opens again, which
  enables the button, and a click sends a second \<open>new_call\<close> with no call end in between.\<close>

theorem second_new_call_after_reconnect:
  "sent (step Click ready_page) = [''new_call''] \<and>
   filter is_call_end [Ws_close, Timer_connect, Ws_open, Click] = [] \<and>
   sent (run [Ws_close, Timer_connect, Ws_open, Click] (step Click ready_page)) =
     [''new_call'', ''new_call'']"
  by (simp add: ready step_sent run_def step_def startNewCall_def onopen_def onclose_def
      connect_def seq_def)

subsection \<open>Outcome markers\<close>

lemma outcome_marker_cases:
  "outcome_marker ''conversion'' = ''+''" "outcome_marker ''missed_opp'' = ''-''"
  "outcome_marker ''fraud_caught'' = ''!''" "outcome_marker ''fraud_missed'' = ''X''"
  by (simp_all add: outcome_marker_def outcomeEmoji_def lookup_def or_property_def template_def)

lemma outcome_marker_fallback:
  "oc \<notin> set (map fst outcomeEmoji) \<Longrightarrow> oc \<notin> set Object_prototype \<Longrightarrow> outcome_marker oc = ''?''"
  by (simp add: outcome_marker_def outcomeEmoji_def lookup_def or_property_def template_def)

lemma outcome_marker_inherited:
  "outcome_marker ''constructor'' = ''function Object() { [native code] }''"
  by (simp add: outcome_marker_def outcomeEmoji_def lookup_def or_property_def template_def Object_prototype_def)

lemma outcome_markers_distinct: "distinct (map snd outcomeEmoji)"
  by (simp add: outcomeEmoji_def)

lemma outcome_headings:
  "map fst outcomeText0 = [''converted'', ''stayed'', ''maybe'']"
  "distinct (map snd outcomeText0)"
  by (simp_all add: outcomeText0_def check_mark_def mobile_phone_def thinking_face_def)

text \<open>
  C7 fails in the conversion-chat client. A session end whose outcome is \<open>undecided\<close>,
  outside converted / stayed / maybe, gets a card whose heading is the text \<open>undefined\<close>:
  the lookup has no fallback, where the call-centre client falls back to the marker \<open>?\<close>.
\<close>

theorem session_end_heading_undefined:
  "chat (handleMessage0 (Session_end undecided_end) initial_session_page) =
     [Session_welcome,
      Session_card
        \<lparr>session_card_className = ''outcome-card undecided'', heading = ''undefined'',
         loyalty_line = ''heart'', openness_line = ''low'', disclosure_line = ''guarded'',
         prediction_line = ''N/A'', badge_className = ''incorrect'', badge_text = ''Wrong''\<rparr>] \<and>
   outcome_marker ''undecided'' = ''?''"
  by (simp add: handlers0 seq_def undecided_end_def initial_session_page_def template_def
      lookup_def outcomeText0_def Object_prototype_def or_string_def outcome_marker_def
      outcomeEmoji_def or_property_def)

subsection \<open>Typing indicator\<close>





















subsection \<open>The two variants of the conversion-chat client\<close>

text \<open>
  C10. On every event the second variant changes the session part of its page exactly as
  the first variant changes its page, and leaves the insights modal as it was; the same
  holds for the start command, and opening or closing the insights modal leaves the
  session part as it was.
\<close>

theorem variants_agree:
  "session_page.truncate (handleMessage1 e s) = handleMessage0 e (session_page.truncate s) \<and>
   insightsModal_active (handleMessage1 e s) = insightsModal_active s \<and>
   insightsContent (handleMessage1 e s) = insightsContent s \<and>
   session_page.truncate (startNewSession1 s) = startNewSession0 (session_page.truncate s) \<and>
   session_page.truncate (showInsights1 s) = session_page.truncate s \<and>
   session_page.truncate (hideInsights1 s) = session_page.truncate s"
  by (cases e)
    (simp_all add: handlers0 handlers1 seq_def Let_def session_page.truncate_def
      outcomeText0_def outcomeText1_def showInsights1_def hideInsights1_def
      split: option.splits)

end
